theory Spec2Isabelle
  imports Main "HOL-Library.Word"
begin

unbundle bit_operations_syntax

section \<open>Syntax tree and type checker\<close>

text \<open>
  The kinds of \<open>ts.BinaryOperatorToken\<close>: every token that can sit between the two
  operands of a \<open>ts.BinaryExpression\<close>.
\<close>

datatype SyntaxKind =
    AsteriskAsteriskToken | AsteriskToken | SlashToken | PercentToken
  | PlusToken | MinusToken
  | LessThanLessThanToken | GreaterThanGreaterThanToken
  | GreaterThanGreaterThanGreaterThanToken
  | LessThanToken | LessThanEqualsToken | GreaterThanToken | GreaterThanEqualsToken
  | InstanceOfKeyword | InKeyword
  | EqualsEqualsToken | EqualsEqualsEqualsToken
  | ExclamationEqualsEqualsToken | ExclamationEqualsToken
  | AmpersandToken | BarToken | CaretToken
  | AmpersandAmpersandToken | BarBarToken
  | EqualsToken | PlusEqualsToken | MinusEqualsToken
  | AsteriskAsteriskEqualsToken | AsteriskEqualsToken | SlashEqualsToken
  | PercentEqualsToken | AmpersandEqualsToken | BarEqualsToken | CaretEqualsToken
  | LessThanLessThanEqualsToken | GreaterThanGreaterThanGreaterThanEqualsToken
  | GreaterThanGreaterThanEqualsToken
  | CommaToken

text \<open>\<open>ts.SyntaxKind.FirstAssignment\<close> is an alias of \<open>EqualsToken\<close>.\<close>

definition FirstAssignment :: SyntaxKind where
  "FirstAssignment = EqualsToken"

text \<open>
  Expression nodes. The generator under study handles \<open>BinaryExpression\<close>; its operands
  are arbitrary nodes, lowered by the dispatcher of the context.
\<close>

datatype Node =
    Identifier string
  | IntegerLiteral int
  | FloatLiteral string
  | BinaryExpression Node SyntaxKind Node

text \<open>A \<open>ts.Type\<close>, of which the generator reads the \<open>flags\<close> bit set only.\<close>

record Type =
  flags :: "32 word"

text \<open>
  The three members of \<open>ts.TypeFlags\<close> the generator tests. They come from the
  compiler's own TypeScript build, which has an \<open>int\<close> type; their bit patterns are not
  part of the sources, so they are a parameter of the model.
\<close>

record TypeFlags =
  TypeFlags_Int :: "32 word"
  TypeFlags_IntLike :: "32 word"
  TypeFlags_NumberLike :: "32 word"

text \<open>\<open>type.flags & flag\<close> as a JavaScript condition: true iff the result is not zero.\<close>

definition hasFlag :: "Type \<Rightarrow> 32 word \<Rightarrow> bool" where
  "hasFlag t flag = (flags t AND flag \<noteq> 0)"

section \<open>IR values, instructions and the builder\<close>

datatype llvmType = Int32Ty | DoubleTy | Int1Ty

text \<open>
  An \<open>llvm.Value\<close>: an integer constant, a floating-point constant (kept as the text of
  its literal), or the result of the instruction at a position of the emitted sequence.
\<close>

datatype llvmValue =
    ConstantInt int
  | ConstantFP string
  | InstructionValue nat

text \<open>
  \<open>v instanceof llvm.ConstantInt && v.isNullValue()\<close>.
\<close>

definition isNullConstantInt :: "llvmValue \<Rightarrow> bool" where
  "isNullConstantInt v = (case v of ConstantInt n \<Rightarrow> n = 0 | _ \<Rightarrow> False)"

datatype Instruction =
    Mul llvmValue llvmValue
  | FPToSI llvmValue llvmType
  | Or llvmValue llvmValue
  | Add llvmValue llvmValue
  | FAdd llvmValue llvmValue
  | Sub llvmValue llvmValue
  | FSub llvmValue llvmValue
  | ICmpSGT llvmValue llvmValue
  | FCmpOGT llvmValue llvmValue
  | ICmpSLT llvmValue llvmValue
  | FCmpULT llvmValue llvmValue
  | SDiv llvmValue llvmValue
  | FDiv llvmValue llvmValue
  | ICmpEQ llvmValue llvmValue
  | FCmpOEQ llvmValue llvmValue
  | ICmpSLE llvmValue llvmValue
  | FCmpULE llvmValue llvmValue
  | SRem llvmValue llvmValue
  | FRem llvmValue llvmValue
  | Load string
  | Store llvmValue string

text \<open>
  The state of \<open>context.builder\<close>: the instructions emitted so far, in emission order.
\<close>

type_synonym IRBuilder = "Instruction list"

text \<open>
  Modelled from the spec: the IR builder is an external library of which only the
  calls are in the sources. By the IR-builder contract of the spec (typed constructors
  for arithmetic, compares and conversions) each \<open>create\<close> call appends one instruction
  at the insertion point and returns the value of that instruction.
\<close>

definition insert_instruction :: "Instruction \<Rightarrow> IRBuilder \<Rightarrow> llvmValue \<times> IRBuilder" where
  "insert_instruction i b = (InstructionValue (length b), b @ [i])"

definition createMul :: "llvmValue \<Rightarrow> llvmValue \<Rightarrow> IRBuilder \<Rightarrow> llvmValue \<times> IRBuilder" where
  "createMul l r = insert_instruction (Mul l r)"

definition createFPToSI :: "llvmValue \<Rightarrow> llvmType \<Rightarrow> IRBuilder \<Rightarrow> llvmValue \<times> IRBuilder" where
  "createFPToSI l ty = insert_instruction (FPToSI l ty)"

definition createOr :: "llvmValue \<Rightarrow> llvmValue \<Rightarrow> IRBuilder \<Rightarrow> llvmValue \<times> IRBuilder" where
  "createOr l r = insert_instruction (Or l r)"

definition createAdd :: "llvmValue \<Rightarrow> llvmValue \<Rightarrow> IRBuilder \<Rightarrow> llvmValue \<times> IRBuilder" where
  "createAdd l r = insert_instruction (Add l r)"

definition createFAdd :: "llvmValue \<Rightarrow> llvmValue \<Rightarrow> IRBuilder \<Rightarrow> llvmValue \<times> IRBuilder" where
  "createFAdd l r = insert_instruction (FAdd l r)"

definition createSub :: "llvmValue \<Rightarrow> llvmValue \<Rightarrow> IRBuilder \<Rightarrow> llvmValue \<times> IRBuilder" where
  "createSub l r = insert_instruction (Sub l r)"

definition createFSub :: "llvmValue \<Rightarrow> llvmValue \<Rightarrow> IRBuilder \<Rightarrow> llvmValue \<times> IRBuilder" where
  "createFSub l r = insert_instruction (FSub l r)"

definition createICmpSGT :: "llvmValue \<Rightarrow> llvmValue \<Rightarrow> IRBuilder \<Rightarrow> llvmValue \<times> IRBuilder" where
  "createICmpSGT l r = insert_instruction (ICmpSGT l r)"

definition createFCmpOGT :: "llvmValue \<Rightarrow> llvmValue \<Rightarrow> IRBuilder \<Rightarrow> llvmValue \<times> IRBuilder" where
  "createFCmpOGT l r = insert_instruction (FCmpOGT l r)"

definition createICmpSLT :: "llvmValue \<Rightarrow> llvmValue \<Rightarrow> IRBuilder \<Rightarrow> llvmValue \<times> IRBuilder" where
  "createICmpSLT l r = insert_instruction (ICmpSLT l r)"

definition createFCmpULT :: "llvmValue \<Rightarrow> llvmValue \<Rightarrow> IRBuilder \<Rightarrow> llvmValue \<times> IRBuilder" where
  "createFCmpULT l r = insert_instruction (FCmpULT l r)"

definition createSDiv :: "llvmValue \<Rightarrow> llvmValue \<Rightarrow> IRBuilder \<Rightarrow> llvmValue \<times> IRBuilder" where
  "createSDiv l r = insert_instruction (SDiv l r)"

definition createFDiv :: "llvmValue \<Rightarrow> llvmValue \<Rightarrow> IRBuilder \<Rightarrow> llvmValue \<times> IRBuilder" where
  "createFDiv l r = insert_instruction (FDiv l r)"

definition createICmpEQ :: "llvmValue \<Rightarrow> llvmValue \<Rightarrow> IRBuilder \<Rightarrow> llvmValue \<times> IRBuilder" where
  "createICmpEQ l r = insert_instruction (ICmpEQ l r)"

definition createFCmpOEQ :: "llvmValue \<Rightarrow> llvmValue \<Rightarrow> IRBuilder \<Rightarrow> llvmValue \<times> IRBuilder" where
  "createFCmpOEQ l r = insert_instruction (FCmpOEQ l r)"

definition createICmpSLE :: "llvmValue \<Rightarrow> llvmValue \<Rightarrow> IRBuilder \<Rightarrow> llvmValue \<times> IRBuilder" where
  "createICmpSLE l r = insert_instruction (ICmpSLE l r)"

definition createFCmpULE :: "llvmValue \<Rightarrow> llvmValue \<Rightarrow> IRBuilder \<Rightarrow> llvmValue \<times> IRBuilder" where
  "createFCmpULE l r = insert_instruction (FCmpULE l r)"

definition createSRem :: "llvmValue \<Rightarrow> llvmValue \<Rightarrow> IRBuilder \<Rightarrow> llvmValue \<times> IRBuilder" where
  "createSRem l r = insert_instruction (SRem l r)"

definition createFRem :: "llvmValue \<Rightarrow> llvmValue \<Rightarrow> IRBuilder \<Rightarrow> llvmValue \<times> IRBuilder" where
  "createFRem l r = insert_instruction (FRem l r)"

definition createLoad :: "string \<Rightarrow> IRBuilder \<Rightarrow> llvmValue \<times> IRBuilder" where
  "createLoad slot = insert_instruction (Load slot)"

definition createStore :: "llvmValue \<Rightarrow> string \<Rightarrow> IRBuilder \<Rightarrow> llvmValue \<times> IRBuilder" where
  "createStore v slot = insert_instruction (Store v slot)"

section \<open>Values\<close>

text \<open>
  The errors a lowering can raise. \<open>UnsupportedBinaryOperator\<close> carries the operator
  token the message names, \<open>ReadOnlyTarget\<close> is "Assignment to readonly value".
\<close>

datatype error =
    UnsupportedBinaryOperator SyntaxKind
  | ReadOnlyTarget
  | TypeMismatch
  | UnresolvedSymbol string
  | UnsupportedSyntacticCategory

text \<open>
  Modelled from the spec: the class \<open>Value\<close> (\<open>../value/value\<close>) is not among the sources.
  By the spec a Value is an r-value, "an SSA operand of known Type", or an l-value, "a
  storage descriptor" with a load and a store, which "can always be coerced to an
  r-value by loading". A storage slot is named by a string.
\<close>

datatype Value =
    RValue llvmValue Type
  | LValue string Type

fun typeOfValue :: "Value \<Rightarrow> Type" where
  "typeOfValue (RValue v t) = t"
| "typeOfValue (LValue s t) = t"

text \<open>
  Modelled from the spec: \<open>generateIR\<close> is the spec's \<open>as_rvalue\<close>, "for r-values, identity;
  for l-values, emits a load".
\<close>

fun generateIR :: "Value \<Rightarrow> IRBuilder \<Rightarrow> llvmValue \<times> IRBuilder" where
  "generateIR (RValue v t) b = (v, b)"
| "generateIR (LValue s t) b = createLoad s b"

text \<open>Modelled from the spec: \<open>is_assignable\<close>, "true iff l-value".\<close>

fun isAssignable :: "Value \<Rightarrow> bool" where
  "isAssignable (RValue v t) = False"
| "isAssignable (LValue s t) = True"

text \<open>
  Modelled from the spec: \<open>generateAssignmentIR\<close> is the spec's \<open>assign(source)\<close>, which
  "stores; fails with ReadOnlyTarget if not assignable. Types must match after implicit
  promotion rules; mismatch is TypeMismatch". The spec does not spell the promotion
  rules out for assignment, so the test that the source's type fits the target's is the
  parameter \<open>fits\<close>.
\<close>

fun generateAssignmentIR ::
  "(Type \<Rightarrow> Type \<Rightarrow> bool) \<Rightarrow> Value \<Rightarrow> Value \<Rightarrow> IRBuilder \<Rightarrow> (error + unit) \<times> IRBuilder" where
  "generateAssignmentIR fits (RValue v t) source b = (Inl ReadOnlyTarget, b)"
| "generateAssignmentIR fits (LValue s t) source b =
     (if fits (typeOfValue source) t
      then (let (x, b1) = generateIR source b;
                (u, b2) = createStore x s b1
            in (Inr (), b2))
      else (Inl TypeMismatch, b))"

section \<open>The code generation context\<close>

text \<open>
  The parts of \<open>CodeGenerationContext\<close> the generator uses besides the builder:
  \<open>context.generateValue\<close> (the dispatcher over syntactic categories, which lowers an
  operand node and may raise), \<open>context.typeChecker.getTypeAtLocation\<close>, and the
  assignment compatibility test of the values it creates. A lowering returns its
  result, or the error raised, together with the builder state at that moment: what
  was emitted before an error stays emitted.
\<close>

record Context =
  generateValue :: "Node \<Rightarrow> IRBuilder \<Rightarrow> (error + Value) \<times> IRBuilder"
  getTypeAtLocation :: "Node \<Rightarrow> Type"
  assignmentFits :: "Type \<Rightarrow> Type \<Rightarrow> bool"

text \<open>\<open>context.value(llvmValue, type)\<close> wraps an IR value into a Value of the given type.\<close>

definition context_value :: "llvmValue \<Rightarrow> Type \<Rightarrow> Value" where
  "context_value v t = RValue v t"

section \<open>The binary expression code generator\<close>

definition isAssignment :: "SyntaxKind \<Rightarrow> bool" where
  "isAssignment operatorToken =
     (operatorToken = EqualsToken \<or>
      operatorToken = PlusEqualsToken \<or>
      operatorToken = MinusEqualsToken \<or>
      operatorToken = AsteriskAsteriskEqualsToken \<or>
      operatorToken = AsteriskEqualsToken \<or>
      operatorToken = SlashEqualsToken \<or>
      operatorToken = PercentEqualsToken \<or>
      operatorToken = AmpersandEqualsToken \<or>
      operatorToken = BarEqualsToken \<or>
      operatorToken = CaretEqualsToken \<or>
      operatorToken = LessThanLessThanEqualsToken \<or>
      operatorToken = GreaterThanGreaterThanGreaterThanEqualsToken \<or>
      operatorToken = GreaterThanGreaterThanEqualsToken)"

text \<open>
  \<open>result = context.builder.createX(left.generateIR(), rightLLVMValue)\<close>: the left
  operand's IR is generated first, then the instruction is created.
\<close>

definition emitWith ::
  "(llvmValue \<Rightarrow> llvmValue \<Rightarrow> IRBuilder \<Rightarrow> llvmValue \<times> IRBuilder) \<Rightarrow>
   Value \<Rightarrow> llvmValue \<Rightarrow> IRBuilder \<Rightarrow> llvmValue option \<times> IRBuilder" where
  "emitWith create left rightLLVMValue b =
     (let (leftLLVMValue, b1) = generateIR left b;
          (result, b2) = create leftLLVMValue rightLLVMValue b1
      in (Some result, b2))"

text \<open>
  The \<open>switch\<close> over the operator token (lines 39 to 138). It yields the \<open>result\<close>
  variable, \<open>None\<close> while it is \<open>undefined\<close>. Case labels that share a body are one
  disjunction; a token with no label falls out of the switch with \<open>result\<close> undefined.
\<close>

definition switchOperator ::
  "TypeFlags \<Rightarrow> SyntaxKind \<Rightarrow> Value \<Rightarrow> Type \<Rightarrow> llvmValue \<Rightarrow> IRBuilder
     \<Rightarrow> llvmValue option \<times> IRBuilder" where
  "switchOperator ts kind left leftType rightLLVMValue b =
    (if kind = AsteriskEqualsToken \<or> kind = AsteriskToken then
       (if hasFlag leftType (TypeFlags_Int ts) then emitWith createMul left rightLLVMValue b
        else (None, b))
     else if kind = BarToken then
       (if hasFlag leftType (TypeFlags_NumberLike ts) then
          (if isNullConstantInt rightLLVMValue
           then emitWith (\<lambda>l r. createFPToSI l Int32Ty) left rightLLVMValue b
           else emitWith createOr left rightLLVMValue b)
        else (None, b))
     else if kind = PlusEqualsToken \<or> kind = PlusToken then
       (if hasFlag leftType (TypeFlags_IntLike ts) then emitWith createAdd left rightLLVMValue b
        else if hasFlag leftType (TypeFlags_NumberLike ts) then emitWith createFAdd left rightLLVMValue b
        else (None, b))
     else if kind = MinusEqualsToken \<or> kind = MinusToken then
       (if hasFlag leftType (TypeFlags_IntLike ts) then emitWith createSub left rightLLVMValue b
        else if hasFlag leftType (TypeFlags_NumberLike ts) then emitWith createFSub left rightLLVMValue b
        else (None, b))
     else if kind = GreaterThanToken then
       (if hasFlag leftType (TypeFlags_IntLike ts) then emitWith createICmpSGT left rightLLVMValue b
        else if hasFlag leftType (TypeFlags_NumberLike ts) then emitWith createFCmpOGT left rightLLVMValue b
        else (None, b))
     else if kind = LessThanToken then
       (if hasFlag leftType (TypeFlags_IntLike ts) then emitWith createICmpSLT left rightLLVMValue b
        else if hasFlag leftType (TypeFlags_NumberLike ts) then emitWith createFCmpULT left rightLLVMValue b
        else (None, b))
     else if kind = SlashEqualsToken \<or> kind = SlashToken then
       (if hasFlag leftType (TypeFlags_IntLike ts) then emitWith createSDiv left rightLLVMValue b
        else if hasFlag leftType (TypeFlags_NumberLike ts) then emitWith createFDiv left rightLLVMValue b
        else (None, b))
     else if kind = EqualsEqualsEqualsToken then
       (if hasFlag leftType (TypeFlags_IntLike ts) then emitWith createICmpEQ left rightLLVMValue b
        else if hasFlag leftType (TypeFlags_NumberLike ts) then emitWith createFCmpOEQ left rightLLVMValue b
        else (None, b))
     else if kind = LessThanEqualsToken then
       (if hasFlag leftType (TypeFlags_IntLike ts) then emitWith createICmpSLE left rightLLVMValue b
        else if hasFlag leftType (TypeFlags_NumberLike ts) then emitWith createFCmpULE left rightLLVMValue b
        else (None, b))
     else if kind = PercentToken then
       (if hasFlag leftType (TypeFlags_IntLike ts) then emitWith createSRem left rightLLVMValue b
        else if hasFlag leftType (TypeFlags_NumberLike ts) then emitWith createFRem left rightLLVMValue b
        else (None, b))
     else if kind = FirstAssignment then (Some rightLLVMValue, b)
     else (None, b))"

text \<open>
  \<open>setValue(target, value)\<close>: the store when the target is assignable, the read-only
  error otherwise.
\<close>

definition setValue :: "Context \<Rightarrow> Value \<Rightarrow> Value \<Rightarrow> IRBuilder \<Rightarrow> (error + unit) \<times> IRBuilder" where
  "setValue context target v b =
     (if isAssignable target then generateAssignmentIR (assignmentFits context) target v b
      else (Inl ReadOnlyTarget, b))"

text \<open>
  \<open>BinaryExpressionCodeGenerator.generate\<close>. An error raised by the lowering of an
  operand propagates; the two errors of the generator itself are the unsupported
  operator (line 141) and the read-only target (line 157).
\<close>

fun generate ::
  "TypeFlags \<Rightarrow> Context \<Rightarrow> Node \<Rightarrow> IRBuilder \<Rightarrow> (error + Value) \<times> IRBuilder" where
  "generate ts context (BinaryExpression l operatorToken r) b0 =
    (case generateValue context l b0 of
       (Inl e, b1) \<Rightarrow> (Inl e, b1)
     | (Inr left, b1) \<Rightarrow>
    (case generateValue context r b1 of
       (Inl e, b2) \<Rightarrow> (Inl e, b2)
     | (Inr right, b2) \<Rightarrow>
    (let (rightLLVMValue, b3) = generateIR right b2;
         leftType = getTypeAtLocation context l;
         rightType = getTypeAtLocation context r
     in case switchOperator ts operatorToken left leftType rightLLVMValue b3 of
          (None, b4) \<Rightarrow> (Inl (UnsupportedBinaryOperator operatorToken), b4)
        | (Some result, b4) \<Rightarrow>
            (let resultValue = context_value result rightType
             in if isAssignment operatorToken
                then (case setValue context left resultValue b4 of
                        (Inl e, b5) \<Rightarrow> (Inl e, b5)
                      | (Inr u, b5) \<Rightarrow> (Inr resultValue, b5))
                else (Inr resultValue, b4)))))"

section \<open>An example context\<close>

text \<open>
  Modelled from the spec: a table for the three type flags in which, as the spec
  requires, every int-like type is number-like (\<open>int_like \<subset> number_like\<close>). The bits
  of \<open>Number\<close>, \<open>Enum\<close>, \<open>NumberLiteral\<close> and \<open>EnumLiteral\<close> are those of TypeScript 2.3;
  \<open>Int\<close> and \<open>IntLiteral\<close> take two bits TypeScript 2.3 leaves free.
\<close>

definition exampleTypeFlags :: TypeFlags where
  "exampleTypeFlags =
     \<lparr>TypeFlags_Int = 0x2000000,
      TypeFlags_IntLike = 0x6000000,
      TypeFlags_NumberLike = 0x6000154\<rparr>"

definition int32Type :: Type where
  "int32Type = \<lparr>flags = 0x2000000\<rparr>"

definition numberType :: Type where
  "numberType = \<lparr>flags = 4\<rparr>"

definition booleanType :: Type where
  "booleanType = \<lparr>flags = 8\<rparr>"

definition anyType :: Type where
  "anyType = \<lparr>flags = 1\<rparr>"

text \<open>
  Modelled from the spec: a type checker for a scope with the \<open>int32\<close> variables
  \<open>i\<close>, \<open>j\<close> and the \<open>float64\<close> variables \<open>x\<close>, \<open>y\<close>. A comparison has type \<open>bool\<close>, every
  other binary expression the type of its left operand.
\<close>

fun exampleTypeChecker :: "Node \<Rightarrow> Type" where
  "exampleTypeChecker (Identifier name) =
     (if name = ''i'' \<or> name = ''j'' then int32Type
      else if name = ''x'' \<or> name = ''y'' then numberType
      else anyType)"
| "exampleTypeChecker (IntegerLiteral n) = int32Type"
| "exampleTypeChecker (FloatLiteral s) = numberType"
| "exampleTypeChecker (BinaryExpression l operatorToken r) =
     (if operatorToken = LessThanToken \<or> operatorToken = LessThanEqualsToken \<or>
         operatorToken = GreaterThanToken \<or> operatorToken = GreaterThanEqualsToken \<or>
         operatorToken = EqualsEqualsEqualsToken \<or>
         operatorToken = ExclamationEqualsEqualsToken
      then booleanType
      else exampleTypeChecker l)"

text \<open>
  Modelled from the spec: a dispatcher with the generators for identifiers and literals
  registered. An identifier is looked up in the scope and yields the l-value of its
  slot, an unresolved one is \<open>UnresolvedSymbol\<close>; a literal yields a constant r-value; a
  category with no generator registered is an error.
\<close>

fun exampleGenerateValue :: "Node \<Rightarrow> IRBuilder \<Rightarrow> (error + Value) \<times> IRBuilder" where
  "exampleGenerateValue (Identifier name) b =
     (if name = ''i'' \<or> name = ''j'' \<or> name = ''x'' \<or> name = ''y''
      then (Inr (LValue name (exampleTypeChecker (Identifier name))), b)
      else (Inl (UnresolvedSymbol name), b))"
| "exampleGenerateValue (IntegerLiteral n) b = (Inr (RValue (ConstantInt n) int32Type), b)"
| "exampleGenerateValue (FloatLiteral s) b = (Inr (RValue (ConstantFP s) numberType), b)"
| "exampleGenerateValue (BinaryExpression l operatorToken r) b =
     (Inl UnsupportedSyntacticCategory, b)"

text \<open>
  Modelled from the spec: a value fits a slot of its own type, and an \<open>int32\<close> value a
  \<open>float64\<close> slot ("widening int\<rightarrow>float allowed").
\<close>

definition exampleFits :: "Type \<Rightarrow> Type \<Rightarrow> bool" where
  "exampleFits source target = (source = target \<or> (source = int32Type \<and> target = numberType))"

definition exampleContext :: Context where
  "exampleContext =
     \<lparr>generateValue = exampleGenerateValue,
      getTypeAtLocation = exampleTypeChecker,
      assignmentFits = exampleFits\<rparr>"

text \<open>
  Modelled from the spec: the same dispatcher with the binary expression generator
  registered as well ("Per-Category Code-Generators (recursive)"), for operands that
  nest binary expressions at most \<open>n\<close> deep. An operand that is a binary expression
  is lowered by \<open>generate\<close>, whose own operands go through the dispatcher one level down.
\<close>

primrec nestedGenerateValue :: "nat \<Rightarrow> Node \<Rightarrow> IRBuilder \<Rightarrow> (error + Value) \<times> IRBuilder" where
  "nestedGenerateValue 0 node b = exampleGenerateValue node b"
| "nestedGenerateValue (Suc n) node b =
     (case node of
        BinaryExpression l operatorToken r \<Rightarrow>
          generate exampleTypeFlags
            \<lparr>generateValue = nestedGenerateValue n,
             getTypeAtLocation = exampleTypeChecker,
             assignmentFits = exampleFits\<rparr> node b
      | _ \<Rightarrow> exampleGenerateValue node b)"

definition nestedContext :: "nat \<Rightarrow> Context" where
  "nestedContext n =
     \<lparr>generateValue = nestedGenerateValue n,
      getTypeAtLocation = exampleTypeChecker,
      assignmentFits = exampleFits\<rparr>"

text \<open>Whether an instruction is a store, the instruction an assignment emits.\<close>

fun isStore :: "Instruction \<Rightarrow> bool" where
  "isStore (Store v slot) = True"
| "isStore i = False"

section \<open>Unfolding and evaluation lemmas\<close>

lemmas example_defs = exampleTypeFlags_def exampleContext_def int32Type_def numberType_def
  booleanType_def anyType_def exampleFits_def

lemmas builder_defs = insert_instruction_def createMul_def createFPToSI_def createOr_def
  createAdd_def createFAdd_def createSub_def createFSub_def createICmpSGT_def createFCmpOGT_def
  createICmpSLT_def createFCmpULT_def createSDiv_def createFDiv_def createICmpEQ_def
  createFCmpOEQ_def createICmpSLE_def createFCmpULE_def createSRem_def createFRem_def
  createLoad_def createStore_def

lemmas eval_defs = example_defs builder_defs switchOperator_def emitWith_def hasFlag_def
  isAssignment_def context_value_def FirstAssignment_def setValue_def isNullConstantInt_def

text \<open>
  Once both operands are lowered and the right one is turned into IR, the generator
  is the switch, the unsupported-operator check and the assignment step.
\<close>

lemma generate_lowered:
  assumes "generateValue context l b0 = (Inr left, b1)"
    and "generateValue context r b1 = (Inr right, b2)"
    and "generateIR right b2 = (rv, b3)"
  shows "generate ts context (BinaryExpression l operatorToken r) b0 =
    (case switchOperator ts operatorToken left (getTypeAtLocation context l) rv b3 of
       (None, b4) \<Rightarrow> (Inl (UnsupportedBinaryOperator operatorToken), b4)
     | (Some result, b4) \<Rightarrow>
         (if isAssignment operatorToken
          then (case setValue context left (RValue result (getTypeAtLocation context r)) b4 of
                  (Inl e, b5) \<Rightarrow> (Inl e, b5)
                | (Inr u, b5) \<Rightarrow> (Inr (RValue result (getTypeAtLocation context r)), b5))
          else (Inr (RValue result (getTypeAtLocation context r)), b4)))"
  using assms by (simp add: context_value_def Let_def split: prod.splits option.splits)

text \<open>A switch that leaves \<open>result\<close> undefined has emitted nothing.\<close>

lemma switchOperator_None:
  assumes "switchOperator ts kind left leftType rv b = (None, b')"
  shows "b' = b"
  using assms
  by (simp add: switchOperator_def emitWith_def split: if_splits prod.splits)

section \<open>The type recorded in the result\<close>

text \<open>
  C1, as stated: the Value returned for a binary expression records the type checker's
  type of the expression node, for instance \<open>bool\<close> for a comparison, and not the right
  operand's type. It fails on \<open>i < j\<close> with \<open>i\<close>, \<open>j\<close> of type \<open>int32\<close>: the expression has
  type \<open>bool\<close>, the returned Value records \<open>int32\<close>, the type of \<open>j\<close>.
\<close>

theorem comparison_result_type_counterexample:
  "generate exampleTypeFlags exampleContext
      (BinaryExpression (Identifier ''i'') LessThanToken (Identifier ''j'')) [] =
     (Inr (RValue (InstructionValue 2) int32Type),
      [Load ''j'', Load ''i'', ICmpSLT (InstructionValue 1) (InstructionValue 0)])
   \<and> getTypeAtLocation exampleContext
       (BinaryExpression (Identifier ''i'') LessThanToken (Identifier ''j'')) = booleanType
   \<and> typeOfValue (RValue (InstructionValue 2) int32Type) \<noteq> booleanType"
  by (simp add: eval_defs)

text \<open>
  C1, amended: for every binary expression the generator lowers successfully, whatever
  the operator (comparisons and the \<open>| 0\<close> coercion included), the returned Value records
  the type checker's type of the right operand node (line 144).
\<close>

theorem result_type_is_right_operand_type:
  assumes "generate ts context (BinaryExpression l operatorToken r) b0 = (Inr v, b')"
  shows "typeOfValue v = getTypeAtLocation context r"
  using assms
  by (auto simp: context_value_def Let_def split: prod.splits sum.splits option.splits if_splits)

theorem result_type_is_right_operand_type_witness:
  "generate exampleTypeFlags exampleContext
      (BinaryExpression (Identifier ''x'') PlusToken (Identifier ''i'')) [] =
     (Inr (RValue (InstructionValue 2) int32Type),
      [Load ''i'', Load ''x'', FAdd (InstructionValue 1) (InstructionValue 0)])
   \<and> typeOfValue (RValue (InstructionValue 2) int32Type) =
       getTypeAtLocation exampleContext (Identifier ''i'')"
  using result_type_is_right_operand_type [of exampleTypeFlags exampleContext
      "Identifier ''x''" PlusToken "Identifier ''i''" "[]"
      "RValue (InstructionValue 2) int32Type"
      "[Load ''i'', Load ''x'', FAdd (InstructionValue 1) (InstructionValue 0)]"]
  by (simp add: eval_defs)

section \<open>The operator \<open>|\<close>\<close>

text \<open>
  C2: for \<open>|\<close>, an int-like left operand gives a bitwise or; a left operand that is
  number-like but not int-like gives the float-to-signed-int-32 truncation when the
  right operand is the integer constant zero, and an error otherwise, never a bitwise
  or. The case of \<open>|\<close> has no int-like test (every sibling case tests int-like first, and
  the comment \<open>293.3 | 0\<close> covers the zero branch only), so the \<open>createOr\<close> branch is
  reached by float operands: on \<open>x | 1\<close> and \<open>x | y\<close> with \<open>x\<close>, \<open>y\<close> of type \<open>float64\<close> the
  generator raises nothing and emits a bitwise or on the loaded floats.
\<close>

theorem float_bar_nonzero_emits_or:
  "hasFlag (getTypeAtLocation exampleContext (Identifier ''x'')) (TypeFlags_NumberLike exampleTypeFlags)
   \<and> \<not> hasFlag (getTypeAtLocation exampleContext (Identifier ''x'')) (TypeFlags_IntLike exampleTypeFlags)
   \<and> \<not> isNullConstantInt (ConstantInt 1)
   \<and> generate exampleTypeFlags exampleContext
      (BinaryExpression (Identifier ''x'') BarToken (IntegerLiteral 1)) [] =
     (Inr (RValue (InstructionValue 1) int32Type), [Load ''x'', Or (InstructionValue 0) (ConstantInt 1)])
   \<and> generate exampleTypeFlags exampleContext
      (BinaryExpression (Identifier ''x'') BarToken (Identifier ''y'')) [] =
     (Inr (RValue (InstructionValue 2) numberType),
      [Load ''y'', Load ''x'', Or (InstructionValue 1) (InstructionValue 0)])"
  by (simp add: eval_defs)

text \<open>
  C3: int-like is tested before number-like in every type-dispatched operator, so that
  an \<open>int32\<close> left operand of \<open>|\<close> never produces a float-to-int truncation. The case of
  \<open>|\<close> has no int-like test: on \<open>i | 0\<close> with \<open>i\<close> of type \<open>int32\<close> the generator emits the
  float-to-signed-int-32 truncation of \<open>i\<close>.
\<close>

theorem int32_bar_zero_takes_float_path:
  "hasFlag (getTypeAtLocation exampleContext (Identifier ''i'')) (TypeFlags_IntLike exampleTypeFlags)
   \<and> generate exampleTypeFlags exampleContext
      (BinaryExpression (Identifier ''i'') BarToken (IntegerLiteral 0)) [] =
     (Inr (RValue (InstructionValue 1) int32Type), [Load ''i'', FPToSI (InstructionValue 0) Int32Ty])"
  by (simp add: eval_defs)

section \<open>Order of evaluation\<close>

text \<open>
  C4: the left operand is evaluated before the right operand, all effects of lowering
  it, the emission of its instructions included, coming before those of the right
  operand. The generator lowers the left node first (line 30), but generates the IR
  of the left Value only inside the case of the operator, after the right operand has
  been lowered and its IR generated (lines 31 and 32). On \<open>i + (i = 5)\<close> the store of
  the right operand is emitted first and the load that reads \<open>i\<close> for the left operand
  after it, so the sum is computed from the value just assigned; on \<open>x + y\<close> the load of
  \<open>y\<close> precedes the load of \<open>x\<close>.
\<close>

theorem left_operand_read_after_right_operand_store:
  "generateValue (nestedContext (Suc 0)) (Identifier ''i'') [] = (Inr (LValue ''i'' int32Type), [])
   \<and> generateIR (LValue ''i'' int32Type) [] = (InstructionValue 0, [Load ''i''])
   \<and> generateValue (nestedContext (Suc 0))
        (BinaryExpression (Identifier ''i'') EqualsToken (IntegerLiteral 5)) [] =
      (Inr (RValue (ConstantInt 5) int32Type), [Store (ConstantInt 5) ''i''])
   \<and> generate exampleTypeFlags (nestedContext (Suc 0))
      (BinaryExpression (Identifier ''i'') PlusToken
         (BinaryExpression (Identifier ''i'') EqualsToken (IntegerLiteral 5))) [] =
     (Inr (RValue (InstructionValue 2) int32Type),
      [Store (ConstantInt 5) ''i'', Load ''i'', Add (InstructionValue 1) (ConstantInt 5)])
   \<and> generate exampleTypeFlags exampleContext
      (BinaryExpression (Identifier ''x'') PlusToken (Identifier ''y'')) [] =
     (Inr (RValue (InstructionValue 2) numberType),
      [Load ''y'', Load ''x'', FAdd (InstructionValue 1) (InstructionValue 0)])"
  by (simp add: eval_defs nestedContext_def)

section \<open>The operators \<open>*\<close> and \<open>*=\<close>\<close>




section \<open>Operators without a case\<close>

text \<open>
  C6, as stated: for int-like operands \<open>>=\<close>, \<open>!==\<close>, \<open>&\<close>, \<open>^\<close>, \<open><<\<close>, \<open>>>\<close> and \<open>>>>\<close> are
  supported and emit a compare, a bitwise or a shift instruction. It fails on \<open>i >= j\<close>
  with \<open>i\<close>, \<open>j\<close> of type \<open>int32\<close>: the generator raises the unsupported-operator error.
\<close>

theorem int_greater_equal_unsupported_counterexample:
  "hasFlag (getTypeAtLocation exampleContext (Identifier ''i'')) (TypeFlags_IntLike exampleTypeFlags)
   \<and> hasFlag (getTypeAtLocation exampleContext (Identifier ''j'')) (TypeFlags_IntLike exampleTypeFlags)
   \<and> generate exampleTypeFlags exampleContext
      (BinaryExpression (Identifier ''i'') GreaterThanEqualsToken (Identifier ''j'')) [] =
     (Inl (UnsupportedBinaryOperator GreaterThanEqualsToken), [Load ''j''])"
  by (simp add: eval_defs)

text \<open>
  C6, amended: the switch has no case for \<open>>=\<close>, \<open>!==\<close>, \<open>&\<close>, \<open>^\<close>, \<open><<\<close>, \<open>>>\<close> and \<open>>>>\<close>.
  With both operands lowered, the generator raises the unsupported-operator error for
  each of them whatever the operand types, int-like included, and emits nothing beyond
  the IR of the right Value.
\<close>

theorem operators_without_case_unsupported:
  assumes "generateValue context l b0 = (Inr left, b1)"
    and "generateValue context r b1 = (Inr right, b2)"
    and "generateIR right b2 = (rv, b3)"
    and "operatorToken \<in> {GreaterThanEqualsToken, ExclamationEqualsEqualsToken, AmpersandToken,
           CaretToken, LessThanLessThanToken, GreaterThanGreaterThanToken,
           GreaterThanGreaterThanGreaterThanToken}"
  shows "generate ts context (BinaryExpression l operatorToken r) b0 =
           (Inl (UnsupportedBinaryOperator operatorToken), b3)"
  using assms(4) unfolding generate_lowered [OF assms(1-3)]
  by (auto simp: switchOperator_def FirstAssignment_def)

theorem operators_without_case_unsupported_witness:
  "generate exampleTypeFlags exampleContext
      (BinaryExpression (Identifier ''i'') AmpersandToken (IntegerLiteral 255)) [] =
     (Inl (UnsupportedBinaryOperator AmpersandToken), [])"
  using operators_without_case_unsupported [of exampleContext "Identifier ''i''" "[]"
      "LValue ''i'' int32Type" "[]" "IntegerLiteral 255" "RValue (ConstantInt 255) int32Type" "[]"
      "ConstantInt 255" "[]" AmpersandToken exampleTypeFlags]
  by (simp add: example_defs)

section \<open>The assignment step\<close>

text \<open>
  C7: for an assignment-form operator, once the switch has computed the result \<open>V\<close>
  (the IR value \<open>result\<close> with the right operand's type), the generator requires the left
  Value to be assignable: if it is not, the read-only-target error is raised; if it is,
  the outcome is that of storing \<open>V\<close> into it, and on success the expression evaluates
  to \<open>V\<close> itself, the store being the last instruction emitted (nothing is loaded back).
\<close>

theorem assignment_step:
  assumes "isAssignment operatorToken"
    and "generateValue context l b0 = (Inr left, b1)"
    and "generateValue context r b1 = (Inr right, b2)"
    and "generateIR right b2 = (rv, b3)"
    and "switchOperator ts operatorToken left (getTypeAtLocation context l) rv b3 = (Some result, b4)"
  shows "(\<not> isAssignable left \<longrightarrow>
            generate ts context (BinaryExpression l operatorToken r) b0 = (Inl ReadOnlyTarget, b4))
       \<and> (isAssignable left \<longrightarrow>
            generate ts context (BinaryExpression l operatorToken r) b0 =
              (case generateAssignmentIR (assignmentFits context) left
                      (RValue result (getTypeAtLocation context r)) b4 of
                 (Inl e, b5) \<Rightarrow> (Inl e, b5)
               | (Inr u, b5) \<Rightarrow> (Inr (RValue result (getTypeAtLocation context r)), b5)))
       \<and> (\<forall>slot t. left = LValue slot t \<and> assignmentFits context (getTypeAtLocation context r) t \<longrightarrow>
            generate ts context (BinaryExpression l operatorToken r) b0 =
              (Inr (RValue result (getTypeAtLocation context r)), b4 @ [Store result slot]))"
  using assms(1,5) unfolding generate_lowered [OF assms(2-4)]
  by (auto simp: setValue_def createStore_def insert_instruction_def)

theorem assignment_step_witness:
  "generate exampleTypeFlags exampleContext
      (BinaryExpression (Identifier ''i'') PlusEqualsToken (IntegerLiteral 3)) [] =
     (Inr (RValue (InstructionValue 1) int32Type),
      [Load ''i'', Add (InstructionValue 0) (ConstantInt 3), Store (InstructionValue 1) ''i''])
   \<and> generate exampleTypeFlags exampleContext
      (BinaryExpression (IntegerLiteral 3) EqualsToken (Identifier ''i'')) [] =
     (Inl ReadOnlyTarget, [Load ''i''])"
  using assignment_step [of PlusEqualsToken exampleContext "Identifier ''i''" "[]"
      "LValue ''i'' int32Type" "[]" "IntegerLiteral 3" "RValue (ConstantInt 3) int32Type" "[]"
      "ConstantInt 3" "[]" exampleTypeFlags "InstructionValue 1"
      "[Load ''i'', Add (InstructionValue 0) (ConstantInt 3)]"]
    assignment_step [of EqualsToken exampleContext "IntegerLiteral 3" "[]"
      "RValue (ConstantInt 3) int32Type" "[]" "Identifier ''i''" "LValue ''i'' int32Type" "[]"
      "InstructionValue 0" "[Load ''i'']" exampleTypeFlags "InstructionValue 0" "[Load ''i'']"]
  by (simp add: eval_defs)

text \<open>
  C8: \<open>x |= 0\<close> is lowered like \<open>x | 0\<close> followed by a store into \<open>x\<close>, and each compound
  assignment (\<open>+=\<close>, \<open>-=\<close>, \<open>*=\<close>, \<open>/=\<close>, \<open>%=\<close>, \<open>|=\<close>) uses the emission rule of its base
  operator and then assigns. \<open>isAssignment\<close> lists \<open>|=\<close> and \<open>%=\<close>, but the cases of \<open>|\<close>
  and \<open>%\<close> lack the labels \<open>BarEqualsToken\<close> and \<open>PercentEqualsToken\<close> that the cases of
  \<open>+\<close>, \<open>-\<close>, \<open>*\<close> and \<open>/\<close> have for their compound forms: with \<open>x\<close>, \<open>y\<close> of type
  \<open>float64\<close>, \<open>x | 0\<close> and \<open>x % y\<close> are lowered, \<open>x |= 0\<close> and \<open>x %= y\<close> raise the
  unsupported-operator error, and nothing is stored.
\<close>

theorem bar_equals_unsupported:
  "isAssignment BarEqualsToken \<and> isAssignment PercentEqualsToken
   \<and> generate exampleTypeFlags exampleContext
      (BinaryExpression (Identifier ''x'') BarToken (IntegerLiteral 0)) [] =
     (Inr (RValue (InstructionValue 1) int32Type), [Load ''x'', FPToSI (InstructionValue 0) Int32Ty])
   \<and> generate exampleTypeFlags exampleContext
      (BinaryExpression (Identifier ''x'') BarEqualsToken (IntegerLiteral 0)) [] =
     (Inl (UnsupportedBinaryOperator BarEqualsToken), [])
   \<and> generate exampleTypeFlags exampleContext
      (BinaryExpression (Identifier ''x'') PercentToken (Identifier ''y'')) [] =
     (Inr (RValue (InstructionValue 2) numberType),
      [Load ''y'', Load ''x'', FRem (InstructionValue 1) (InstructionValue 0)])
   \<and> generate exampleTypeFlags exampleContext
      (BinaryExpression (Identifier ''x'') PercentEqualsToken (Identifier ''y'')) [] =
     (Inl (UnsupportedBinaryOperator PercentEqualsToken), [Load ''y''])"
  by (simp add: eval_defs)

section \<open>Float comparison predicates\<close>

text \<open>
  C9: for a left operand that is number-like and not int-like, \<open>>\<close> emits an ordered
  greater-than compare, \<open><\<close> an unordered less-than compare, \<open><=\<close> an unordered
  less-or-equal compare and \<open>===\<close> an ordered equality compare.
\<close>

theorem float_comparison_predicates:
  assumes "generateValue context l b0 = (Inr left, b1)"
    and "generateValue context r b1 = (Inr right, b2)"
    and "generateIR right b2 = (rv, b3)"
    and "generateIR left b3 = (lv, b4)"
    and "hasFlag (getTypeAtLocation context l) (TypeFlags_NumberLike ts)"
    and "\<not> hasFlag (getTypeAtLocation context l) (TypeFlags_IntLike ts)"
  shows "generate ts context (BinaryExpression l GreaterThanToken r) b0 =
           (Inr (RValue (InstructionValue (length b4)) (getTypeAtLocation context r)),
            b4 @ [FCmpOGT lv rv])
       \<and> generate ts context (BinaryExpression l LessThanToken r) b0 =
           (Inr (RValue (InstructionValue (length b4)) (getTypeAtLocation context r)),
            b4 @ [FCmpULT lv rv])
       \<and> generate ts context (BinaryExpression l LessThanEqualsToken r) b0 =
           (Inr (RValue (InstructionValue (length b4)) (getTypeAtLocation context r)),
            b4 @ [FCmpULE lv rv])
       \<and> generate ts context (BinaryExpression l EqualsEqualsEqualsToken r) b0 =
           (Inr (RValue (InstructionValue (length b4)) (getTypeAtLocation context r)),
            b4 @ [FCmpOEQ lv rv])"
  using assms(4-6) unfolding generate_lowered [OF assms(1-3)]
  by (simp add: switchOperator_def emitWith_def isAssignment_def createFCmpOGT_def
      createFCmpULT_def createFCmpULE_def createFCmpOEQ_def insert_instruction_def)

theorem float_comparison_predicates_witness:
  "generate exampleTypeFlags exampleContext
      (BinaryExpression (Identifier ''x'') GreaterThanToken (Identifier ''y'')) [] =
     (Inr (RValue (InstructionValue 2) numberType),
      [Load ''y'', Load ''x'', FCmpOGT (InstructionValue 1) (InstructionValue 0)])
   \<and> generate exampleTypeFlags exampleContext
      (BinaryExpression (Identifier ''x'') LessThanToken (Identifier ''y'')) [] =
     (Inr (RValue (InstructionValue 2) numberType),
      [Load ''y'', Load ''x'', FCmpULT (InstructionValue 1) (InstructionValue 0)])
   \<and> generate exampleTypeFlags exampleContext
      (BinaryExpression (Identifier ''x'') LessThanEqualsToken (Identifier ''y'')) [] =
     (Inr (RValue (InstructionValue 2) numberType),
      [Load ''y'', Load ''x'', FCmpULE (InstructionValue 1) (InstructionValue 0)])
   \<and> generate exampleTypeFlags exampleContext
      (BinaryExpression (Identifier ''x'') EqualsEqualsEqualsToken (Identifier ''y'')) [] =
     (Inr (RValue (InstructionValue 2) numberType),
      [Load ''y'', Load ''x'', FCmpOEQ (InstructionValue 1) (InstructionValue 0)])"
  using float_comparison_predicates [of exampleContext "Identifier ''x''" "[]"
      "LValue ''x'' numberType" "[]" "Identifier ''y''" "LValue ''y'' numberType" "[]"
      "InstructionValue 0" "[Load ''y'']" "InstructionValue 1" "[Load ''y'', Load ''x'']"
      exampleTypeFlags]
  by (simp add: example_defs hasFlag_def createLoad_def insert_instruction_def)

section \<open>The unsupported-operator error\<close>

text \<open>
  C10, as stated: when the unsupported-operator error is raised no store has been
  emitted, though the IR of both operands has already been generated. The last clause
  fails on \<open>x %= y\<close> with two variables: at the error the builder holds the load of \<open>y\<close>
  and nothing else; the IR of the left Value, the load of \<open>x\<close>, has not been generated.
\<close>

theorem left_IR_not_generated_at_error_counterexample:
  "generateValue exampleContext (Identifier ''x'') [] = (Inr (LValue ''x'' numberType), [])
   \<and> generateIR (LValue ''x'' numberType) [] = (InstructionValue 0, [Load ''x''])
   \<and> generate exampleTypeFlags exampleContext
      (BinaryExpression (Identifier ''x'') PercentEqualsToken (Identifier ''y'')) [] =
     (Inl (UnsupportedBinaryOperator PercentEqualsToken), [Load ''y''])
   \<and> Load ''x'' \<notin> set [Load ''y'']"
  by (simp add: eval_defs)

text \<open>
  With both operands lowered, an unsupported-operator error of the generator is its
  own, and the builder is as the IR of the right Value left it.
\<close>

lemma unsupported_after_lowering:
  assumes "generateValue context l b0 = (Inr left, b1)"
    and "generateValue context r b1 = (Inr right, b2)"
    and "generate ts context (BinaryExpression l operatorToken r) b0 =
           (Inl (UnsupportedBinaryOperator kind), b')"
  shows "kind = operatorToken \<and> b' = snd (generateIR right b2)
       \<and> fst (switchOperator ts operatorToken left (getTypeAtLocation context l)
                (fst (generateIR right b2)) (snd (generateIR right b2))) = None
       \<and> list_all (\<lambda>i. \<not> isStore i) (drop (length b2) b')"
proof -
  obtain rv b3 where RI: "generateIR right b2 = (rv, b3)"
    by (cases "generateIR right b2")
  note G = assms(3) [unfolded generate_lowered [OF assms(1,2) RI]]
  obtain result b4 where S:
    "switchOperator ts operatorToken left (getTypeAtLocation context l) rv b3 = (result, b4)"
    by (cases "switchOperator ts operatorToken left (getTypeAtLocation context l) rv b3")
  have none: "result = None"
  proof (cases result)
    case None
    then show ?thesis .
  next
    case (Some res)
    with G S show ?thesis
      by (cases left)
        (auto simp: setValue_def Let_def split: if_splits prod.splits sum.splits)
  qed
  with S have b4: "b4 = b3" by (simp add: switchOperator_None)
  from G S none b4 have k: "kind = operatorToken" and b': "b' = b3" by simp_all
  have "list_all (\<lambda>i. \<not> isStore i) (drop (length b2) b3)"
    using RI by (cases right) (auto simp: createLoad_def insert_instruction_def)
  with k b' RI S none b4 show ?thesis by simp
qed

text \<open>Generating the IR of a Value appends the load of an l-value and nothing else.\<close>

lemma generateIR_appends:
  "snd (generateIR v b) = b @ (case v of RValue x t \<Rightarrow> [] | LValue slot t \<Rightarrow> [Load slot])"
  by (cases v) (simp_all add: createLoad_def insert_instruction_def)

text \<open>
  C10, amended: whenever the generator ends in the unsupported-operator error, either
  the lowering of an operand raised it, or the generator raised it itself for its own
  operator token, whatever the token and the operand types, strictly before the
  assignment step: both operands have then been lowered by \<open>context.generateValue\<close>, the
  switch has left \<open>result\<close> undefined, and the builder holds what the lowering of the
  operands emitted followed by the IR of the right Value only (the load of an l-value,
  nothing for an r-value). No store has been emitted, and the IR of the left Value has
  not been generated.
\<close>

theorem unsupported_operator_before_assignment:
  assumes "generate ts context (BinaryExpression l operatorToken r) b0 =
           (Inl (UnsupportedBinaryOperator kind), b')"
  shows "generateValue context l b0 = (Inl (UnsupportedBinaryOperator kind), b')
       \<or> (\<exists>left b1. generateValue context l b0 = (Inr left, b1) \<and>
            (generateValue context r b1 = (Inl (UnsupportedBinaryOperator kind), b')
             \<or> (\<exists>right b2. generateValue context r b1 = (Inr right, b2)
                  \<and> kind = operatorToken
                  \<and> b' = snd (generateIR right b2)
                  \<and> b' = b2 @ (case right of RValue x t \<Rightarrow> [] | LValue slot t \<Rightarrow> [Load slot])
                  \<and> fst (switchOperator ts operatorToken left (getTypeAtLocation context l)
                           (fst (generateIR right b2)) (snd (generateIR right b2))) = None
                  \<and> list_all (\<lambda>i. \<not> isStore i) (drop (length b2) b'))))"
proof (cases "generateValue context l b0")
  case (Pair resL b1)
  show ?thesis
  proof (cases resL)
    case (Inl e)
    with Pair assms show ?thesis by simp
  next
    case (Inr left)
    note L = Pair [unfolded Inr]
    show ?thesis
    proof (cases "generateValue context r b1")
      case (Pair resR b2)
      show ?thesis
      proof (cases resR)
        case (Inl e)
        with Pair L assms show ?thesis by simp
      next
        case (Inr right)
        note R = Pair [unfolded Inr]
        from unsupported_after_lowering [OF L R assms] generateIR_appends [of right b2] L R
        show ?thesis by (cases right) simp_all
      qed
    qed
  qed
qed

theorem unsupported_operator_before_assignment_witness:
  "generate exampleTypeFlags exampleContext
      (BinaryExpression (Identifier ''x'') PercentEqualsToken (Identifier ''y'')) [] =
     (Inl (UnsupportedBinaryOperator PercentEqualsToken), [Load ''y''])
   \<and> generateValue exampleContext (Identifier ''x'') [] = (Inr (LValue ''x'' numberType), [])
   \<and> generateValue exampleContext (Identifier ''y'') [] = (Inr (LValue ''y'' numberType), [])
   \<and> [Load ''y''] = snd (generateIR (LValue ''y'' numberType) [])
   \<and> list_all (\<lambda>i. \<not> isStore i) (drop (length ([] :: IRBuilder)) [Load ''y''])"
proof -
  have h: "generate exampleTypeFlags exampleContext
      (BinaryExpression (Identifier ''x'') PercentEqualsToken (Identifier ''y'')) [] =
     (Inl (UnsupportedBinaryOperator PercentEqualsToken), [Load ''y''])"
    by (simp add: eval_defs)
  from unsupported_operator_before_assignment [OF h] h show ?thesis
    by (simp add: example_defs createLoad_def insert_instruction_def)
qed

end
